theory Spec2Isabelle
  imports Main
begin

section \<open>Python values used by the dispatcher\<close>

text \<open>
  The recognized text is a Python \<open>str\<close>. It is modelled as a \<open>string\<close> whose
  characters are read as the code points U+0000 to U+00FF, one \<open>char\<close> each. The
  character classes below are the ones Python's \<open>str.lower\<close>, \<open>str.split\<close> and
  \<open>str.isdigit\<close> use on that range.
\<close>

definition code_point :: "char \<Rightarrow> nat" where
  "code_point c = of_char c"

definition lower_char :: "char \<Rightarrow> char" where
  "lower_char c =
     (let n = code_point c in
      if (65 \<le> n \<and> n \<le> 90) \<or> (192 \<le> n \<and> n \<le> 214) \<or> (216 \<le> n \<and> n \<le> 222)
      then char_of (n + 32) else c)"

definition lower :: "string \<Rightarrow> string" where
  "lower s = map lower_char s"

definition isspace_char :: "char \<Rightarrow> bool" where
  "isspace_char c =
     (let n = code_point c in
      (9 \<le> n \<and> n \<le> 13) \<or> (28 \<le> n \<and> n \<le> 32) \<or> n = 133 \<or> n = 160)"

definition isdecimal_char :: "char \<Rightarrow> bool" where
  "isdecimal_char c = (let n = code_point c in 48 \<le> n \<and> n \<le> 57)"

definition isdigit_char :: "char \<Rightarrow> bool" where
  "isdigit_char c =
     (let n = code_point c in (48 \<le> n \<and> n \<le> 57) \<or> n = 178 \<or> n = 179 \<or> n = 185)"

text \<open>\<open>s.isdigit()\<close>: at least one character, and every character a digit.\<close>

definition isdigit :: "string \<Rightarrow> bool" where
  "isdigit s = (s \<noteq> [] \<and> list_all isdigit_char s)"

text \<open>\<open>s.startswith(p)\<close> and the containment test \<open>p in s\<close>.\<close>

definition startswith :: "string \<Rightarrow> string \<Rightarrow> bool" where
  "startswith s p = (take (length p) s = p)"

fun py_in :: "string \<Rightarrow> string \<Rightarrow> bool" where
  "py_in p [] = (p = [])"
| "py_in p (c # cs) = (startswith (c # cs) p \<or> py_in p cs)"

text \<open>
  \<open>s.replace(old, '', 1)\<close> removes the leftmost occurrence of \<open>old\<close>;
  \<open>s.replace(old, '')\<close> removes the occurrences found from left to right, without
  overlap. Both are used by the source with a non-empty \<open>old\<close> only, and with an
  empty \<open>old\<close> and an empty replacement Python returns \<open>s\<close> as well.
\<close>

fun replace_first :: "string \<Rightarrow> string \<Rightarrow> string" where
  "replace_first old [] = []"
| "replace_first old (c # cs) =
     (if startswith (c # cs) old then drop (length old) (c # cs)
      else c # replace_first old cs)"

function replace_all :: "string \<Rightarrow> string \<Rightarrow> string" where
  "replace_all old [] = []"
| "replace_all old (c # cs) =
     (if old \<noteq> [] \<and> startswith (c # cs) old
      then replace_all old (drop (length old) (c # cs))
      else c # replace_all old cs)"
  by pat_completeness auto
termination
  by (relation "measure (\<lambda>(old, s). length s)") auto

text \<open>\<open>s.split()\<close>: the maximal runs of non-whitespace characters, in order.\<close>

fun split_acc :: "string \<Rightarrow> string \<Rightarrow> string list" where
  "split_acc tok [] = (if tok = [] then [] else [tok])"
| "split_acc tok (c # cs) =
     (if isspace_char c then (if tok = [] then [] else [tok]) @ split_acc [] cs
      else split_acc (tok @ [c]) cs)"

definition split :: "string \<Rightarrow> string list" where
  "split s = split_acc [] s"

datatype exn =
    KeyError string
  | AttributeError
  | TypeError
  | IndexError
  | ValueError
  | SystemExit int

text \<open>
  \<open>int(s)\<close> for a token that passed \<open>isdigit\<close>: the decimal value when every
  character is one of 0 to 9; the superscript digits pass \<open>isdigit\<close> and are refused
  by \<open>int\<close> with a ValueError.
\<close>

definition digit_value :: "char \<Rightarrow> int" where
  "digit_value c = int (code_point c) - 48"

definition py_int :: "string \<Rightarrow> exn + int" where
  "py_int s =
     (if s \<noteq> [] \<and> list_all isdecimal_char s
      then Inr (foldl (\<lambda>acc c. 10 * acc + digit_value c) 0 s)
      else Inl ValueError)"

text \<open>\<open>[int(s) for s in tokens if s.isdigit()]\<close>: the first failing conversion raises.\<close>

fun int_tokens :: "string list \<Rightarrow> exn + int list" where
  "int_tokens [] = Inr []"
| "int_tokens (s # ss) =
     (if isdigit s then
        (case py_int s of
           Inl e \<Rightarrow> Inl e
         | Inr n \<Rightarrow> (case int_tokens ss of Inl e \<Rightarrow> Inl e | Inr ns \<Rightarrow> Inr (n # ns)))
      else int_tokens ss)"

text \<open>\<open>str(n)\<close> of an integer, and \<open>str(xs)\<close> of a list of integers.\<close>

definition digit_char :: "nat \<Rightarrow> char" where
  "digit_char d = char_of (48 + d)"

fun str_nat :: "nat \<Rightarrow> string" where
  "str_nat n = (if n < 10 then [digit_char n] else str_nat (n div 10) @ [digit_char (n mod 10)])"

declare str_nat.simps [simp del]

definition str_int :: "int \<Rightarrow> string" where
  "str_int i = (if i < 0 then CHR ''-'' # str_nat (nat (- i)) else str_nat (nat i))"

fun join_ints :: "int list \<Rightarrow> string" where
  "join_ints [] = []"
| "join_ints [i] = str_int i"
| "join_ints (i # j # js) = str_int i @ '', '' @ join_ints (j # js)"

definition str_int_list :: "int list \<Rightarrow> string" where
  "str_int_list xs = ''['' @ join_ints xs @ '']''"

section \<open>Events, the assistant object and its surroundings\<close>

text \<open>
  \<open>EventType\<close> belongs to the assistant library. The six kinds the dispatcher tests
  for are named; \<open>ON_OTHER n\<close> stands for each other member of the enumeration.
\<close>

datatype EventType =
    ON_START_FINISHED
  | ON_CONVERSATION_TURN_STARTED
  | ON_RECOGNIZING_SPEECH_FINISHED
  | ON_END_OF_UTTERANCE
  | ON_CONVERSATION_TURN_FINISHED
  | ON_ASSISTANT_ERROR
  | ON_OTHER nat

datatype pyval = Str string | Bool bool

text \<open>\<open>event.args\<close> is \<open>None\<close> or a dictionary, kept as an association list.\<close>

record event =
  type :: EventType
  args :: "(string \<times> pyval) list option"

text \<open>Truth value of \<open>event.args\<close> and of a dictionary entry; \<open>event.args[key]\<close>.\<close>

definition truthy_args :: "(string \<times> pyval) list option \<Rightarrow> bool" where
  "truthy_args a = (case a of None \<Rightarrow> False | Some d \<Rightarrow> d \<noteq> [])"

definition truthy :: "pyval \<Rightarrow> bool" where
  "truthy v = (case v of Str s \<Rightarrow> s \<noteq> [] | Bool b \<Rightarrow> b)"

datatype outcome = Returned | Raised exn

definition subscript :: "(string \<times> pyval) list option \<Rightarrow> string \<Rightarrow> exn + pyval" where
  "subscript a k =
     (case a of
        None \<Rightarrow> Inl TypeError
      | Some d \<Rightarrow> (case map_of d k of None \<Rightarrow> Inl (KeyError k) | Some v \<Rightarrow> Inr v))"

definition str :: "pyval \<Rightarrow> string" where
  "str v = (case v of Str s \<Rightarrow> s | Bool b \<Rightarrow> (if b then ''True'' else ''False''))"

text \<open>
  Every call that leaves the program is recorded, in order: requests on the session,
  speech output, shell commands, printed lines, the status indicator, the registration
  of the button callback and the volume setting.
\<close>

datatype action =
    StartConversation
  | StopConversation
  | Say string
  | Call string
  | CheckOutput string
  | Print string
  | Status string
  | OnPress
  | SetTtsVolume int

datatype assistant = Assistant

text \<open>
  The attributes of \<open>MyAssistant\<close> (\<open>can_start_conversation\<close>, \<open>assistant\<close>), the state
  its collaborators hold (the status shown, the TTS volume), what the surroundings
  answer (whether standard output is a terminal, the decoded output of the host name
  command) and the record of calls.
\<close>

record world =
  can_start_conversation :: bool
  assistant :: "assistant option"
  ui_status :: string
  tts_volume :: int
  stdout_isatty :: bool
  hostname_output :: string
  trace :: "action list"

text \<open>
  The collaborators are taken at their word: the status indicator shows the last status
  it was given, and \<open>aiy.audio\<close> returns as the TTS volume the last value it was set to,
  whatever that value is.
\<close>

definition emit :: "action \<Rightarrow> world \<Rightarrow> world" where
  "emit a w = w\<lparr>trace := trace w @ [a]\<rparr>"

definition status :: "string \<Rightarrow> world \<Rightarrow> world" where
  "status s w = emit (Status s) (w\<lparr>ui_status := s\<rparr>)"

definition set_tts_volume :: "int \<Rightarrow> world \<Rightarrow> world" where
  "set_tts_volume v w = emit (SetTtsVolume v) (w\<lparr>tts_volume := v\<rparr>)"

definition get_tts_volume :: "world \<Rightarrow> int" where
  "get_tts_volume w = tts_volume w"

definition say :: "string \<Rightarrow> world \<Rightarrow> world" where
  "say s w = emit (Say s) w"

definition print :: "string \<Rightarrow> world \<Rightarrow> world" where
  "print s w = emit (Print s) w"

definition on_press :: "world \<Rightarrow> world" where
  "on_press w = emit OnPress w"

text \<open>
  A request on \<open>self._assistant\<close>: while the attribute is still \<open>None\<close> the method
  lookup raises.
\<close>

definition start_conversation :: "world \<Rightarrow> exn + world" where
  "start_conversation w =
     (case assistant w of None \<Rightarrow> Inl AttributeError | Some a \<Rightarrow> Inr (emit StartConversation w))"

definition stop_conversation :: "world \<Rightarrow> exn + world" where
  "stop_conversation w =
     (case assistant w of None \<Rightarrow> Inl AttributeError | Some a \<Rightarrow> Inr (emit StopConversation w))"

section \<open>The command actions\<close>

definition power_off_pi :: "world \<Rightarrow> world" where
  "power_off_pi w = emit (Call ''sudo shutdown now'') (say ''Good bye!'' w)"

definition reboot_pi :: "world \<Rightarrow> world" where
  "reboot_pi w = emit (Call ''sudo reboot'') (say ''See you in a bit!'' w)"

definition say_ip :: "world \<Rightarrow> world" where
  "say_ip w =
     (let w1 = emit (CheckOutput ''hostname -I | cut -d' ' -f1'') w;
          ip_address = hostname_output w1
      in say (''My IP address is '' @ ip_address) w1)"

definition volume_down :: "world \<Rightarrow> world" where
  "volume_down w =
     (let volume_actual = get_tts_volume w in
      if volume_actual < 2 then say ''Ok, done'' (set_tts_volume 0 w)
      else say ''Ok, done'' (set_tts_volume (volume_actual - 2) w))"

definition volume_up :: "world \<Rightarrow> world" where
  "volume_up w =
     (let volume_actual = get_tts_volume w in
      if volume_actual > 98 then say ''Ok, done'' (set_tts_volume 100 w)
      else say ''Ok, done'' (set_tts_volume (volume_actual + 2) w))"

section \<open>The assistant\<close>

text \<open>
  \<open>__init__\<close>: the readiness attribute starts false and the session attribute
  \<open>None\<close>. The module has set the TTS volume to 2 before; the status shown, the
  terminal and the host name output are what the surroundings provide.
\<close>

definition init :: "string \<Rightarrow> bool \<Rightarrow> string \<Rightarrow> world" where
  "init st tty ip =
     \<lparr>can_start_conversation = False, assistant = None, ui_status = st, tts_volume = 2,
      stdout_isatty = tty, hostname_output = ip, trace = []\<rparr>"

definition hint :: string where
  \<open>hint = ''Say "OK, Google" or press the button, then speak. Press Ctrl+C to quit...''\<close>

text \<open>
  \<open>_process_event\<close>. The result pairs how the call ended with the state it left:
  an exception leaves what was done before it. The conditions
  \<open>'what is' and 'ip address' in text\<close> and \<open>'set' and 'secondary volume to' in text\<close>
  are conjunctions of the truth value of a string literal with a containment test.
\<close>

definition process_event :: "event \<Rightarrow> world \<Rightarrow> outcome \<times> world" where
  "process_event event w =
    (if type event = ON_START_FINISHED then
       (let w1 = status ''ready'' w;
            w2 = w1\<lparr>can_start_conversation := True\<rparr>;
            w3 = on_press w2
        in (Returned, if stdout_isatty w3 then print hint w3 else w3))
     else if type event = ON_CONVERSATION_TURN_STARTED then
       (let w1 = w\<lparr>can_start_conversation := False\<rparr>;
            w2 = status ''listening'' w1
        in (Returned, on_press w2))
     else if type event = ON_RECOGNIZING_SPEECH_FINISHED \<and> truthy_args (args event) then
       (case subscript (args event) ''text'' of
          Inl e \<Rightarrow> (Raised e, w)
        | Inr v \<Rightarrow>
            (let w1 = print (''You said: '' @ str v) w in
             case v of
               Bool b \<Rightarrow> (Raised AttributeError, w1)
             | Str s \<Rightarrow>
                 (let text = lower s in
                  if text = ''power off'' then
                    (case stop_conversation w1 of
                       Inl e \<Rightarrow> (Raised e, w1)
                     | Inr w2 \<Rightarrow> (Returned, power_off_pi w2))
                  else if text = ''reboot'' then
                    (case stop_conversation w1 of
                       Inl e \<Rightarrow> (Raised e, w1)
                     | Inr w2 \<Rightarrow> (Returned, reboot_pi w2))
                  else if ''what is'' \<noteq> [] \<and> py_in ''ip address'' text then
                    (case stop_conversation w1 of
                       Inl e \<Rightarrow> (Raised e, w1)
                     | Inr w2 \<Rightarrow> (Returned, say_ip w2))
                  else if py_in ''repeat'' text then
                    (case stop_conversation w1 of
                       Inl e \<Rightarrow> (Raised e, w1)
                     | Inr w2 \<Rightarrow>
                         (let to_repeat = replace_first ''repeat'' text
                          in (Returned, say to_repeat w2)))
                  else if ''set'' \<noteq> [] \<and> py_in ''secondary volume to'' text then
                    (case stop_conversation w1 of
                       Inl e \<Rightarrow> (Raised e, w1)
                     | Inr w2 \<Rightarrow>
                         (let text2 = replace_all ''%'' text in
                          case int_tokens (split text2) of
                            Inl e \<Rightarrow> (Raised e, w2)
                          | Inr volume \<Rightarrow>
                              (let w3 = print (str_int_list volume) w2 in
                               case volume of
                                 [] \<Rightarrow> (Raised IndexError, w3)
                               | v0 # rest \<Rightarrow>
                                   (let w4 = say (''Ok, I've set the secondary volume to''
                                                  @ str_int v0 @ ''%'') w3;
                                        w5 = print (str_int_list volume) w4
                                    in (Returned, set_tts_volume v0 w5)))))
                  else if py_in ''secondary volume down'' text then
                    (case stop_conversation w1 of
                       Inl e \<Rightarrow> (Raised e, w1)
                     | Inr w2 \<Rightarrow> (Returned, volume_down w2))
                  else if py_in ''secondary volume up'' text then
                    (case stop_conversation w1 of
                       Inl e \<Rightarrow> (Raised e, w1)
                     | Inr w2 \<Rightarrow> (Returned, volume_down w2))
                  else (Returned, w1))))
     else if type event = ON_END_OF_UTTERANCE then
       (Returned, status ''thinking'' w)
     else if type event = ON_CONVERSATION_TURN_FINISHED then
       (let w1 = status ''ready'' w
        in (Returned, w1\<lparr>can_start_conversation := True\<rparr>))
     else if type event = ON_ASSISTANT_ERROR \<and> truthy_args (args event) then
       (case subscript (args event) ''is_fatal'' of
          Inl e \<Rightarrow> (Raised e, w)
        | Inr v \<Rightarrow> (if truthy v then (Raised (SystemExit 1), w) else (Returned, w)))
     else (Returned, w))"

text \<open>\<open>_on_button_pressed\<close>.\<close>

definition on_button_pressed :: "world \<Rightarrow> outcome \<times> world" where
  "on_button_pressed w =
     (if can_start_conversation w then
        (case start_conversation w of Inl e \<Rightarrow> (Raised e, w) | Inr w1 \<Rightarrow> (Returned, w1))
      else
        (case stop_conversation w of Inl e \<Rightarrow> (Raised e, w) | Inr w1 \<Rightarrow> (Returned, w1)))"

text \<open>
  \<open>_run_task\<close>: the session is stored in the attribute, then each event of the
  stream goes to the dispatcher in order; an exception ends the loop. \<open>handled\<close>
  lists the events the loop handed over.
\<close>

fun for_each_event :: "event list \<Rightarrow> world \<Rightarrow> outcome \<times> world" where
  "for_each_event [] w = (Returned, w)"
| "for_each_event (e # es) w =
     (case process_event e w of
        (Returned, w1) \<Rightarrow> for_each_event es w1
      | (Raised x, w1) \<Rightarrow> (Raised x, w1))"

fun handled :: "event list \<Rightarrow> world \<Rightarrow> event list" where
  "handled [] w = []"
| "handled (e # es) w =
     (case process_event e w of
        (Returned, w1) \<Rightarrow> e # handled es w1
      | (Raised x, w1) \<Rightarrow> [e])"

definition run_task :: "event list \<Rightarrow> world \<Rightarrow> outcome \<times> world" where
  "run_task events w = for_each_event events (w\<lparr>assistant := Some Assistant\<rparr>)"

text \<open>
  \<open>start\<close> and \<open>main\<close>. The loop is the target of a thread: \<open>start\<close> returns at once,
  and \<open>main\<close> after it. An exception that leaves the target ends that thread and goes
  no further (SystemExit silently, any other with a report on standard error, which is
  not recorded here). The process ends once the loop has ended, with the exit status of
  the main thread, which is 0. \<open>main\<close> gives that exit status and the state the thread
  has left.
\<close>

definition start :: "event list \<Rightarrow> world \<Rightarrow> world" where
  "start events w = snd (run_task events w)"

definition main :: "event list \<Rightarrow> string \<Rightarrow> bool \<Rightarrow> string \<Rightarrow> int \<times> world" where
  "main events st tty ip = (0, start events (init st tty ip))"

section \<open>The dispatcher's state machine as the design document tabulates it\<close>

text \<open>
  The table of the design document, read as a function of the event kind on the pair of
  the status shown and the readiness flag: four kinds set the status, three of them the
  flag as well, and every other kind leaves both.
\<close>

fun table_4_2 :: "EventType \<Rightarrow> string \<times> bool \<Rightarrow> string \<times> bool" where
  "table_4_2 ON_START_FINISHED (s, r) = (''ready'', True)"
| "table_4_2 ON_CONVERSATION_TURN_STARTED (s, r) = (''listening'', False)"
| "table_4_2 ON_END_OF_UTTERANCE (s, r) = (''thinking'', r)"
| "table_4_2 ON_CONVERSATION_TURN_FINISHED (s, r) = (''ready'', True)"
| "table_4_2 k (s, r) = (s, r)"

definition status_and_readiness :: "world \<Rightarrow> string \<times> bool" where
  "status_and_readiness w = (ui_status w, can_start_conversation w)"

text \<open>A recognized-speech event carrying the text \<open>t\<close>, and the line printed for it.\<close>

definition speech :: "string \<Rightarrow> event" where
  "speech t = \<lparr>type = ON_RECOGNIZING_SPEECH_FINISHED, args = Some [(''text'', Str t)]\<rparr>"

definition you_said :: "string \<Rightarrow> action" where
  "you_said t = Print (''You said: '' @ t)"

text \<open>
  The attributes no command action writes: readiness, the session, the status shown and
  what the surroundings answer.
\<close>

definition kept_by_commands :: "world \<Rightarrow> bool \<times> assistant option \<times> string \<times> bool \<times> string" where
  "kept_by_commands w =
     (can_start_conversation w, assistant w, ui_status w, stdout_isatty w, hostname_output w)"

text \<open>The state in which \<open>_run_task\<close> enters its loop, right after construction.\<close>

definition started :: "string \<Rightarrow> bool \<Rightarrow> string \<Rightarrow> world" where
  "started st tty ip = snd (run_task [] (init st tty ip))"

section \<open>Strings\<close>

text \<open>
  Containment is the existence of an occurrence, and \<open>replace_first\<close> removes the
  leftmost occurrence: the one preceded by no earlier start of \<open>old\<close>.
\<close>

lemma take_eq_imp_prefix: "take (length p) s = p \<Longrightarrow> \<exists>ys. s = p @ ys"
  by (metis append_take_drop_id)

lemma py_in_iff: "py_in p s \<longleftrightarrow> (\<exists>xs ys. s = xs @ p @ ys)"
proof (induction s)
  case Nil
  then show ?case by auto
next
  case (Cons c cs)
  show ?case
  proof
    assume "py_in p (c # cs)"
    then consider "take (length p) (c # cs) = p" | "py_in p cs"
      by (auto simp: startswith_def)
    then show "\<exists>xs ys. c # cs = xs @ p @ ys"
    proof cases
      case 1
      then obtain ys where "c # cs = p @ ys" using take_eq_imp_prefix by blast
      then have "c # cs = [] @ p @ ys" by simp
      then show ?thesis by blast
    next
      case 2
      with Cons.IH obtain xs ys where "cs = xs @ p @ ys" by blast
      then have "c # cs = (c # xs) @ p @ ys" by simp
      then show ?thesis by blast
    qed
  next
    assume "\<exists>xs ys. c # cs = xs @ p @ ys"
    then obtain xs ys where eq: "c # cs = xs @ p @ ys" by blast
    show "py_in p (c # cs)"
    proof (cases xs)
      case Nil
      with eq have "take (length p) (c # cs) = p" by simp
      then show ?thesis by (simp add: startswith_def)
    next
      case (Cons x xs')
      with eq have "cs = xs' @ p @ ys" by simp
      with Cons.IH have "py_in p cs" by blast
      then show ?thesis by simp
    qed
  qed
qed

lemma py_in_append: "py_in p (xs @ p @ ys)"
  by (auto simp: py_in_iff)

lemma replace_first_leftmost:
  assumes "old \<noteq> []" and "\<not> py_in old (ps @ butlast old)"
  shows "replace_first old (ps @ old @ ss) = ps @ ss"
  using assms(2)
proof (induction ps)
  case Nil
  from assms(1) obtain c cs where old: "old = c # cs" by (cases old) auto
  have "startswith (old @ ss) old" by (simp add: startswith_def)
  then show ?case using old by simp
next
  case (Cons a ps)
  from Cons.prems have no_start: "\<not> startswith (a # ps @ butlast old) old"
    and rest: "\<not> py_in old (ps @ butlast old)" by auto
  have len: "length old \<le> length (a # ps @ butlast old)" by simp
  have "a # ps @ old @ ss = (a # ps @ butlast old) @ (last old # ss)"
    using assms(1) by simp
  then have "take (length old) (a # ps @ old @ ss) = take (length old) (a # ps @ butlast old)"
    using len by (metis append_Nil2 diff_is_0_eq take_0 take_append)
  with no_start have "\<not> startswith (a # ps @ old @ ss) old"
    by (simp add: startswith_def)
  with Cons.IH [OF rest] show ?case by simp
qed

lemma int_tokens_no_digit: "filter isdigit toks = [] \<Longrightarrow> int_tokens toks = Inr []"
  by (induction toks) (auto split: if_splits)

section \<open>Single events\<close>

lemmas effect_defs = emit_def status_def set_tts_volume_def get_tts_volume_def say_def
  print_def on_press_def start_conversation_def stop_conversation_def power_off_pi_def
  reboot_pi_def say_ip_def volume_down_def

lemma map_of_truthy: "map_of d k = Some v \<Longrightarrow> truthy_args (Some d)"
  by (cases d) (auto simp: truthy_args_def)

lemma subscript_Some: "map_of d k = Some v \<Longrightarrow> subscript (Some d) k = Inr v"
  by (simp add: subscript_def)

lemma started_eq:
  "started st tty ip =
    \<lparr>can_start_conversation = False, assistant = Some Assistant, ui_status = st,
     tts_volume = 2, stdout_isatty = tty, hostname_output = ip, trace = []\<rparr>"
  by (simp add: started_def run_task_def init_def)

lemma speech_simps:
  "type (speech t) = ON_RECOGNIZING_SPEECH_FINISHED"
  "args (speech t) = Some [(''text'', Str t)]"
  "map_of [(''text'', Str t)] ''text'' = Some (Str t)"
  by (simp_all add: speech_def)

lemma start_finished:
  "process_event \<lparr>type = ON_START_FINISHED, args = a\<rparr> w =
    (Returned,
     if stdout_isatty w
     then w\<lparr>can_start_conversation := True, ui_status := ''ready'',
            trace := trace w @ [Status ''ready'', OnPress, Print hint]\<rparr>
     else w\<lparr>can_start_conversation := True, ui_status := ''ready'',
            trace := trace w @ [Status ''ready'', OnPress]\<rparr>)"
  by (simp add: process_event_def status_def on_press_def print_def emit_def)

lemma turn_started:
  "process_event \<lparr>type = ON_CONVERSATION_TURN_STARTED, args = a\<rparr> w =
    (Returned, w\<lparr>can_start_conversation := False, ui_status := ''listening'',
       trace := trace w @ [Status ''listening'', OnPress]\<rparr>)"
  by (simp add: process_event_def status_def on_press_def emit_def)

lemma end_of_utterance:
  "process_event \<lparr>type = ON_END_OF_UTTERANCE, args = a\<rparr> w =
    (Returned, w\<lparr>ui_status := ''thinking'', trace := trace w @ [Status ''thinking'']\<rparr>)"
  by (simp add: process_event_def status_def emit_def)

lemma other_kind:
  "process_event \<lparr>type = ON_OTHER n, args = a\<rparr> w = (Returned, w)"
  by (simp add: process_event_def)

lemma turn_finished:
  "process_event \<lparr>type = ON_CONVERSATION_TURN_FINISHED, args = a\<rparr> w =
    (Returned, w\<lparr>can_start_conversation := True, ui_status := ''ready'',
       trace := trace w @ [Status ''ready'']\<rparr>)"
  by (simp add: process_event_def status_def emit_def)

section \<open>What the command actions leave alone\<close>

lemma kept_emit [simp]: "kept_by_commands (emit a w) = kept_by_commands w"
  by (simp add: kept_by_commands_def emit_def)

lemma kept_say [simp]: "kept_by_commands (say s w) = kept_by_commands w"
  by (simp add: say_def)

lemma kept_print [simp]: "kept_by_commands (print s w) = kept_by_commands w"
  by (simp add: print_def)

lemma kept_set_tts_volume [simp]: "kept_by_commands (set_tts_volume v w) = kept_by_commands w"
  by (simp add: set_tts_volume_def) (simp add: kept_by_commands_def)

lemma kept_actions [simp]:
  "kept_by_commands (power_off_pi w) = kept_by_commands w"
  "kept_by_commands (reboot_pi w) = kept_by_commands w"
  "kept_by_commands (say_ip w) = kept_by_commands w"
  "kept_by_commands (volume_down w) = kept_by_commands w"
  by (simp_all add: power_off_pi_def reboot_pi_def say_ip_def volume_down_def Let_def)

lemma kept_stop: "stop_conversation w = Inr w' \<Longrightarrow> kept_by_commands w' = kept_by_commands w"
  by (auto simp: stop_conversation_def split: option.splits)

lemma speech_keeps:
  "type e = ON_RECOGNIZING_SPEECH_FINISHED \<Longrightarrow>
   kept_by_commands (snd (process_event e w)) = kept_by_commands w"
  by (auto simp: process_event_def Let_def dest: kept_stop
      split: sum.splits pyval.splits list.splits)

lemma process_event_table:
  "status_and_readiness (snd (process_event e w)) = table_4_2 (type e) (status_and_readiness w)"
proof (cases "type e")
  case ON_RECOGNIZING_SPEECH_FINISHED
  with speech_keeps [of e w] show ?thesis
    by (simp add: kept_by_commands_def status_and_readiness_def)
next
  case ON_ASSISTANT_ERROR
  then show ?thesis
    by (simp add: process_event_def status_and_readiness_def split: sum.splits)
qed (simp_all add: process_event_def status_and_readiness_def emit_def status_def
      on_press_def print_def Let_def)

lemma process_event_assistant: "assistant (snd (process_event e w)) = assistant w"
proof (cases "type e")
  case ON_RECOGNIZING_SPEECH_FINISHED
  with speech_keeps [of e w] show ?thesis
    by (simp add: kept_by_commands_def)
next
  case ON_ASSISTANT_ERROR
  then show ?thesis
    by (simp add: process_event_def split: sum.splits)
qed (simp_all add: process_event_def emit_def status_def on_press_def print_def Let_def)

lemma button_keeps_readiness:
  "status_and_readiness (snd (on_button_pressed w)) = status_and_readiness w"
  by (simp add: on_button_pressed_def start_conversation_def stop_conversation_def emit_def
      status_and_readiness_def split: option.splits)

lemma for_each_event_assistant: "assistant (snd (for_each_event es w)) = assistant w"
proof (induction es arbitrary: w)
  case Nil
  show ?case by simp
next
  case (Cons e es)
  obtain r w1 where step: "process_event e w = (r, w1)" by (cases "process_event e w")
  have "assistant w1 = assistant w" using process_event_assistant [of e w] step by simp
  with step Cons.IH [of w1] show ?case by (cases r) simp_all
qed

lemma process_event_not_ready:
  assumes "type e \<noteq> ON_START_FINISHED" and "type e \<noteq> ON_CONVERSATION_TURN_FINISHED"
    and "\<not> can_start_conversation w"
  shows "\<not> can_start_conversation (snd (process_event e w))"
proof -
  have "snd (table_4_2 (type e) (status_and_readiness w)) = False"
    using assms by (cases "type e") (simp_all add: status_and_readiness_def)
  moreover have "can_start_conversation (snd (process_event e w)) =
      snd (status_and_readiness (snd (process_event e w)))"
    by (simp add: status_and_readiness_def)
  ultimately show ?thesis
    by (simp only: process_event_table) simp
qed

lemma for_each_event_not_ready:
  assumes "list_all (\<lambda>e. type e \<noteq> ON_START_FINISHED \<and> type e \<noteq> ON_CONVERSATION_TURN_FINISHED) es"
    and "\<not> can_start_conversation w"
  shows "\<not> can_start_conversation (snd (for_each_event es w))"
  using assms
proof (induction es arbitrary: w)
  case Nil
  then show ?case by simp
next
  case (Cons e es)
  obtain r w1 where step: "process_event e w = (r, w1)" by (cases "process_event e w")
  have "\<not> can_start_conversation w1"
    using process_event_not_ready [of e w] Cons.prems step by simp
  with step Cons.IH [of w1] Cons.prems show ?case by (cases r) simp_all
qed

section \<open>The state machine\<close>

text \<open>
  Claim C1. Whatever the sequence of events, the status shown and the readiness flag the
  loop ends with are the table's: START_FINISHED gives ready and true,
  CONVERSATION_TURN_STARTED listening and false, END_OF_UTTERANCE thinking with the flag
  kept, CONVERSATION_TURN_FINISHED ready and true, and every other kind keeps both. The
  fold runs over the events the loop handed to the dispatcher, the last of them being the
  one that raised when the loop ended by an exception.
\<close>

theorem dispatcher_follows_table:
  "status_and_readiness (snd (for_each_event es w)) =
   foldl (\<lambda>s e. table_4_2 (type e) s) (status_and_readiness w) (handled es w)"
proof (induction es arbitrary: w)
  case Nil
  show ?case by simp
next
  case (Cons e es)
  obtain r w1 where step: "process_event e w = (r, w1)" by (cases "process_event e w")
  have tab: "status_and_readiness w1 = table_4_2 (type e) (status_and_readiness w)"
    using process_event_table [of e w] step by simp
  show ?case
  proof (cases r)
    case Returned
    with step tab Cons.IH [of w1] show ?thesis by simp
  next
    case (Raised x)
    with step tab show ?thesis by simp
  qed
qed

theorem dispatcher_follows_table_witness:
  "status_and_readiness (snd (for_each_event
      [\<lparr>type = ON_START_FINISHED, args = None\<rparr>,
       \<lparr>type = ON_CONVERSATION_TURN_STARTED, args = None\<rparr>,
       \<lparr>type = ON_END_OF_UTTERANCE, args = None\<rparr>,
       \<lparr>type = ON_OTHER 0, args = None\<rparr>] (started [] False []))) = (''thinking'', False)"
proof -
  let ?es = "[\<lparr>type = ON_START_FINISHED, args = None\<rparr>,
       \<lparr>type = ON_CONVERSATION_TURN_STARTED, args = None\<rparr>,
       \<lparr>type = ON_END_OF_UTTERANCE, args = None\<rparr>,
       \<lparr>type = ON_OTHER 0, args = None\<rparr>]"
  have h: "handled ?es (started [] False []) = ?es"
    by (simp add: start_finished turn_started end_of_utterance other_kind started_eq)
  have s: "status_and_readiness (started [] False []) = ([], False)"
    by (simp add: status_and_readiness_def started_eq)
  show ?thesis
    using dispatcher_follows_table [of ?es "started [] False []"]
    by (simp add: h s del: handled.simps for_each_event.simps)
qed

section \<open>The button callback\<close>

text \<open>
  Claim C2. With the session stored in the attribute, as it is from the moment
  \<open>_run_task\<close> enters its loop, one call of the callback makes exactly one request:
  \<open>start_conversation\<close> when the readiness flag is true, \<open>stop_conversation\<close> when it
  is false; nothing else changes.
\<close>

theorem button_callback:
  assumes "assistant w = Some a"
  shows "on_button_pressed w =
    (Returned, w\<lparr>trace := trace w @ [if can_start_conversation w then StartConversation else StopConversation]\<rparr>)"
  using assms by (simp add: on_button_pressed_def effect_defs)

theorem button_callback_witness:
  "on_button_pressed (started [] False []) =
     (Returned, (started [] False [])\<lparr>trace := [StopConversation]\<rparr>) \<and>
   on_button_pressed ((started [] False [])\<lparr>can_start_conversation := True\<rparr>) =
     (Returned, (started [] False [])\<lparr>can_start_conversation := True,
        trace := [StartConversation]\<rparr>)"
  using button_callback [of "started [] False []" Assistant]
    button_callback [of "(started [] False [])\<lparr>can_start_conversation := True\<rparr>" Assistant]
  by (simp add: started_eq)

text \<open>
  Claim C10, with CONVERSATION_TURN_FINISHED excluded as well. The flag is false after
  construction, and it is still false
  after any events other than START_FINISHED and CONVERSATION_TURN_FINISHED; so a call
  of the callback in the state the loop has reached then requests
  \<open>stop_conversation\<close> and nothing else.
\<close>

theorem button_before_ready:
  assumes "list_all (\<lambda>e. type e \<noteq> ON_START_FINISHED \<and> type e \<noteq> ON_CONVERSATION_TURN_FINISHED) es"
    and "snd (run_task es (init st tty ip)) = w"
  shows "\<not> can_start_conversation (init st tty ip) \<and>
         on_button_pressed w = (Returned, w\<lparr>trace := trace w @ [StopConversation]\<rparr>)"
proof -
  let ?w0 = "(init st tty ip)\<lparr>assistant := Some Assistant\<rparr>"
  have w: "w = snd (for_each_event es ?w0)" using assms(2) by (simp add: run_task_def)
  have "\<not> can_start_conversation ?w0" by (simp add: init_def)
  then have "\<not> can_start_conversation w"
    using for_each_event_not_ready [OF assms(1)] w by simp
  moreover have "assistant w = Some Assistant"
    using for_each_event_assistant [of es ?w0] w by simp
  ultimately show ?thesis
    by (simp add: on_button_pressed_def stop_conversation_def emit_def init_def)
qed

theorem button_before_ready_witness:
  "on_button_pressed (snd (run_task
      [\<lparr>type = ON_CONVERSATION_TURN_STARTED, args = None\<rparr>,
       \<lparr>type = ON_END_OF_UTTERANCE, args = None\<rparr>] (init [] False []))) =
    (Returned,
     \<lparr>can_start_conversation = False, assistant = Some Assistant, ui_status = ''thinking'',
      tts_volume = 2, stdout_isatty = False, hostname_output = [],
      trace = [Status ''listening'', OnPress, Status ''thinking'', StopConversation]\<rparr>)"
proof -
  let ?es = "[\<lparr>type = ON_CONVERSATION_TURN_STARTED, args = None\<rparr>,
       \<lparr>type = ON_END_OF_UTTERANCE, args = None\<rparr>]"
  have r: "snd (run_task ?es (init [] False [])) =
    \<lparr>can_start_conversation = False, assistant = Some Assistant, ui_status = ''thinking'',
      tts_volume = 2, stdout_isatty = False, hostname_output = [],
      trace = [Status ''listening'', OnPress, Status ''thinking'']\<rparr>"
    by (simp add: run_task_def init_def turn_started end_of_utterance)
  have a: "list_all (\<lambda>e. type e \<noteq> ON_START_FINISHED \<and> type e \<noteq> ON_CONVERSATION_TURN_FINISHED) ?es"
    by simp
  show ?thesis
    using button_before_ready [OF a r] by (simp add: r)
qed

text \<open>
  Claim C10 as first stated lets any event but START_FINISHED come before the call. A
  turn that starts and finishes sets the flag, and the callback then requests
  \<open>start_conversation\<close>.
\<close>

theorem button_before_start_finished_counterexample:
  "ON_START_FINISHED \<notin> set (map type
      [\<lparr>type = ON_CONVERSATION_TURN_STARTED, args = None\<rparr>,
       \<lparr>type = ON_CONVERSATION_TURN_FINISHED, args = None\<rparr>]) \<and>
   on_button_pressed (snd (run_task
      [\<lparr>type = ON_CONVERSATION_TURN_STARTED, args = None\<rparr>,
       \<lparr>type = ON_CONVERSATION_TURN_FINISHED, args = None\<rparr>] (init [] False []))) =
    (Returned,
     \<lparr>can_start_conversation = True, assistant = Some Assistant, ui_status = ''ready'',
      tts_volume = 2, stdout_isatty = False, hostname_output = [],
      trace = [Status ''listening'', OnPress, Status ''ready'', StartConversation]\<rparr>)"
  by (simp add: run_task_def init_def turn_started turn_finished on_button_pressed_def
      start_conversation_def emit_def)

section \<open>Voice commands\<close>

text \<open>
  Claim C3. When the recognized text lowercases to \<open>power off\<close>, the dispatcher prints
  the text, requests \<open>stop_conversation\<close> once, then says good bye and calls the
  shutdown command once each; no other call is made and the volume is untouched.
\<close>

theorem power_off:
  assumes "type e = ON_RECOGNIZING_SPEECH_FINISHED" and "args e = Some d"
    and "map_of d ''text'' = Some (Str t)" and "lower t = ''power off''"
    and "assistant w = Some a"
  shows "process_event e w =
    (Returned, w\<lparr>trace := trace w @
       [you_said t, StopConversation, Say ''Good bye!'', Call ''sudo shutdown now'']\<rparr>)"
  using assms
  by (simp add: process_event_def map_of_truthy subscript_Some str_def you_said_def effect_defs)

theorem power_off_witness:
  "process_event (speech ''Power Off'') (started [] False []) =
    (Returned, (started [] False [])\<lparr>trace :=
       [Print ''You said: Power Off'', StopConversation, Say ''Good bye!'',
        Call ''sudo shutdown now'']\<rparr>)"
proof -
  have l: "lower ''Power Off'' = ''power off''" by code_simp
  show ?thesis
    using power_off [of "speech ''Power Off''" "[(''text'', Str ''Power Off'')]" "''Power Off''"
        "started [] False []" Assistant] l
    by (simp add: speech_simps started_eq you_said_def)
qed

text \<open>
  Claim C6. When the lowercased text contains \<open>ip address\<close>, with or without
  \<open>what is\<close>, the dispatcher requests \<open>stop_conversation\<close> and reports the address:
  it runs the host name command and says its output. Such a text is neither
  \<open>power off\<close> nor \<open>reboot\<close>.
\<close>

theorem report_ip:
  assumes "type e = ON_RECOGNIZING_SPEECH_FINISHED" and "args e = Some d"
    and "map_of d ''text'' = Some (Str t)" and "py_in ''ip address'' (lower t)"
    and "assistant w = Some a"
  shows "process_event e w =
    (Returned, w\<lparr>trace := trace w @
       [you_said t, StopConversation, CheckOutput ''hostname -I | cut -d' ' -f1'',
        Say (''My IP address is '' @ hostname_output w)]\<rparr>)"
proof -
  have "lower t \<noteq> ''power off''" "lower t \<noteq> ''reboot''"
    using assms(4) by (auto simp: startswith_def)
  with assms show ?thesis
    by (simp add: process_event_def map_of_truthy subscript_Some str_def you_said_def
        effect_defs Let_def)
qed

theorem report_ip_witness:
  "process_event (speech ''Tell me the IP address'') (started [] False ''10.0.0.7'') =
    (Returned, (started [] False ''10.0.0.7'')\<lparr>trace :=
       [Print ''You said: Tell me the IP address'', StopConversation,
        CheckOutput ''hostname -I | cut -d' ' -f1'', Say ''My IP address is 10.0.0.7'']\<rparr>)"
proof -
  let ?t = "''Tell me the IP address''"
  have l: "lower ?t = ''tell me the ip address''" by code_simp
  have c: "py_in ''ip address'' (lower ?t)" unfolding l by (simp add: startswith_def)
  show ?thesis
    using report_ip [of "speech ?t" "[(''text'', Str ?t)]" ?t
        "started [] False ''10.0.0.7''" Assistant, OF _ _ _ c]
    by (simp add: speech_simps started_eq you_said_def)
qed

text \<open>
  Claim C7. When the lowercased text is \<open>ps\<close>, then \<open>repeat\<close>, then \<open>ss\<close>, with no
  occurrence of \<open>repeat\<close> starting inside \<open>ps\<close>, and no earlier rule matches, the
  dispatcher requests \<open>stop_conversation\<close> and says \<open>ps\<close> followed by \<open>ss\<close>. The
  instance after it is the text of the design document, double space included.
\<close>

theorem repeat_phrase:
  assumes "type e = ON_RECOGNIZING_SPEECH_FINISHED" and "args e = Some d"
    and "map_of d ''text'' = Some (Str t)"
    and "lower t = ps @ ''repeat'' @ ss" and "\<not> py_in ''repeat'' (ps @ ''repea'')"
    and "\<not> py_in ''ip address'' (lower t)"
    and "assistant w = Some a"
  shows "process_event e w =
    (Returned, w\<lparr>trace := trace w @ [you_said t, StopConversation, Say (ps @ ss)]\<rparr>)"
proof -
  have has: "py_in ''repeat'' (lower t)"
    using assms(4) py_in_append [of "''repeat''" ps ss] by simp
  then have "lower t \<noteq> ''power off''" "lower t \<noteq> ''reboot''"
    by (auto simp: startswith_def)
  moreover have "replace_first ''repeat'' (lower t) = ps @ ss"
    using assms(4,5) replace_first_leftmost [of "''repeat''" ps ss] by simp
  ultimately show ?thesis using assms has
    by (simp add: process_event_def map_of_truthy subscript_Some str_def you_said_def
        effect_defs Let_def)
qed

theorem repeat_phrase_witness:
  "process_event (speech ''please repeat that cat fact'') (started [] False []) =
    (Returned, (started [] False [])\<lparr>trace :=
       [Print ''You said: please repeat that cat fact'', StopConversation,
        Say ''please  that cat fact'']\<rparr>)"
proof -
  let ?t = "''please repeat that cat fact''"
  have l: "lower ?t = ?t" by code_simp
  have d: "lower ?t = ''please '' @ ''repeat'' @ '' that cat fact''" unfolding l by simp
  have c1: "\<not> py_in ''repeat'' (''please '' @ ''repea'')" by (simp add: startswith_def)
  have c2: "\<not> py_in ''ip address'' (lower ?t)" unfolding l by (simp add: startswith_def)
  show ?thesis
    using repeat_phrase [of "speech ?t" "[(''text'', Str ?t)]" ?t "''please ''"
        "'' that cat fact''" "started [] False []" Assistant, OF _ _ _ d c1 c2]
    by (simp add: speech_simps started_eq you_said_def)
qed

text \<open>
  Claim C5. When no earlier rule matches and the lowercased text contains
  \<open>secondary volume down\<close> or \<open>secondary volume up\<close>, the dispatcher requests
  \<open>stop_conversation\<close>, sets the TTS volume to the larger of 0 and the previous volume
  less 2, and says the fixed confirmation: the same decrease for both phrases.
\<close>

theorem volume_down_or_up:
  assumes "type e = ON_RECOGNIZING_SPEECH_FINISHED" and "args e = Some d"
    and "map_of d ''text'' = Some (Str t)"
    and "\<not> py_in ''ip address'' (lower t)" and "\<not> py_in ''repeat'' (lower t)"
    and "\<not> py_in ''secondary volume to'' (lower t)"
    and "py_in ''secondary volume down'' (lower t) \<or> py_in ''secondary volume up'' (lower t)"
    and "assistant w = Some a"
  shows "process_event e w =
    (Returned, w\<lparr>tts_volume := max 0 (tts_volume w - 2),
       trace := trace w @
         [you_said t, StopConversation, SetTtsVolume (max 0 (tts_volume w - 2)),
          Say ''Ok, done'']\<rparr>)"
proof -
  have "lower t \<noteq> ''power off''" "lower t \<noteq> ''reboot''"
    using assms(7) by (auto simp: startswith_def)
  with assms show ?thesis
    by (auto simp: process_event_def map_of_truthy subscript_Some str_def you_said_def
        effect_defs Let_def max_def)
qed

theorem volume_down_or_up_witness:
  "process_event (speech ''Secondary volume up'') ((started [] False [])\<lparr>tts_volume := 50\<rparr>) =
    (Returned, (started [] False [])\<lparr>tts_volume := 48, trace :=
       [Print ''You said: Secondary volume up'', StopConversation, SetTtsVolume 48,
        Say ''Ok, done'']\<rparr>) \<and>
   process_event (speech ''secondary volume down'') (started [] False []) =
    (Returned, (started [] False [])\<lparr>tts_volume := 0, trace :=
       [Print ''You said: secondary volume down'', StopConversation, SetTtsVolume 0,
        Say ''Ok, done'']\<rparr>)"
proof -
  let ?t = "''Secondary volume up''" and ?u = "''secondary volume down''"
  have l: "lower ?t = ''secondary volume up''" "lower ?u = ?u" by code_simp+
  have t1: "\<not> py_in ''ip address'' (lower ?t)" unfolding l by (simp add: startswith_def)
  have t2: "\<not> py_in ''repeat'' (lower ?t)" unfolding l by (simp add: startswith_def)
  have t3: "\<not> py_in ''secondary volume to'' (lower ?t)" unfolding l by (simp add: startswith_def)
  have t4: "py_in ''secondary volume down'' (lower ?t) \<or> py_in ''secondary volume up'' (lower ?t)"
    unfolding l by (simp add: startswith_def)
  have u1: "\<not> py_in ''ip address'' (lower ?u)" unfolding l by (simp add: startswith_def)
  have u2: "\<not> py_in ''repeat'' (lower ?u)" unfolding l by (simp add: startswith_def)
  have u3: "\<not> py_in ''secondary volume to'' (lower ?u)" unfolding l by (simp add: startswith_def)
  have u4: "py_in ''secondary volume down'' (lower ?u) \<or> py_in ''secondary volume up'' (lower ?u)"
    unfolding l by (simp add: startswith_def)
  show ?thesis
    using volume_down_or_up [of "speech ?t" "[(''text'', Str ?t)]" ?t
        "(started [] False [])\<lparr>tts_volume := 50\<rparr>" Assistant, OF _ _ _ t1 t2 t3 t4]
      volume_down_or_up [of "speech ?u" "[(''text'', Str ?u)]" ?u "started [] False []" Assistant,
        OF _ _ _ u1 u2 u3 u4]
    by (simp add: speech_simps started_eq you_said_def)
qed

text \<open>
  Claim C9. When the set-volume rule is the first to match and the text, percent signs
  removed, has no digit token, the handler fails with IndexError on the empty list. By
  then the text and the empty list are printed and \<open>stop_conversation\<close> is requested,
  and the state keeps all three.
\<close>

theorem set_volume_without_digits:
  assumes "type e = ON_RECOGNIZING_SPEECH_FINISHED" and "args e = Some d"
    and "map_of d ''text'' = Some (Str t)"
    and "\<not> py_in ''ip address'' (lower t)" and "\<not> py_in ''repeat'' (lower t)"
    and "py_in ''secondary volume to'' (lower t)"
    and "filter isdigit (split (replace_all ''%'' (lower t))) = []"
    and "assistant w = Some a"
  shows "process_event e w =
    (Raised IndexError, w\<lparr>trace := trace w @ [you_said t, StopConversation, Print ''[]'']\<rparr>)"
proof -
  have "lower t \<noteq> ''power off''" "lower t \<noteq> ''reboot''"
    using assms(6) by (auto simp: startswith_def)
  moreover have "int_tokens (split (replace_all ''%'' (lower t))) = Inr []"
    using assms(7) by (rule int_tokens_no_digit)
  ultimately show ?thesis using assms
    by (simp add: process_event_def map_of_truthy subscript_Some str_def you_said_def
        effect_defs Let_def str_int_list_def)
qed

theorem set_volume_without_digits_witness:
  "process_event (speech ''set secondary volume to max'') (started [] False []) =
    (Raised IndexError, (started [] False [])\<lparr>trace :=
       [Print ''You said: set secondary volume to max'', StopConversation, Print ''[]'']\<rparr>)"
proof -
  let ?t = "''set secondary volume to max''"
  have l: "lower ?t = ?t" by code_simp
  have f: "filter isdigit (split (replace_all ''%'' (lower ?t))) = []" by code_simp
  have c1: "\<not> py_in ''ip address'' (lower ?t)" unfolding l by (simp add: startswith_def)
  have c2: "\<not> py_in ''repeat'' (lower ?t)" unfolding l by (simp add: startswith_def)
  have c3: "py_in ''secondary volume to'' (lower ?t)" unfolding l by (simp add: startswith_def)
  show ?thesis
    using set_volume_without_digits [of "speech ?t" "[(''text'', Str ?t)]" ?t
        "started [] False []" Assistant, OF _ _ _ c1 c2 c3 f]
    by (simp add: speech_simps started_eq you_said_def)
qed

text \<open>
  \<open>volume_up\<close> and \<open>volume_down\<close> keep a volume between 0 and 100 in that range.
\<close>

lemma volume_up_down_in_range:
  assumes "0 \<le> tts_volume w" and "tts_volume w \<le> 100"
  shows "0 \<le> tts_volume (volume_up w) \<and> tts_volume (volume_up w) \<le> 100 \<and>
         0 \<le> tts_volume (volume_down w) \<and> tts_volume (volume_down w) \<le> 100"
  using assms
  by (simp add: volume_up_def volume_down_def get_tts_volume_def set_tts_volume_def say_def
      emit_def Let_def)

text \<open>
  The set-volume rule when the conversions succeed: the first number is spoken and
  stored as the TTS volume as it is.
\<close>

lemma set_volume_first_token:
  assumes "type e = ON_RECOGNIZING_SPEECH_FINISHED" and "args e = Some d"
    and "map_of d ''text'' = Some (Str t)"
    and "\<not> py_in ''ip address'' (lower t)" and "\<not> py_in ''repeat'' (lower t)"
    and "py_in ''secondary volume to'' (lower t)"
    and "int_tokens (split (replace_all ''%'' (lower t))) = Inr (v # vs)"
    and "assistant w = Some a"
  shows "process_event e w =
    (Returned, w\<lparr>tts_volume := v,
       trace := trace w @
         [you_said t, StopConversation, Print (str_int_list (v # vs)),
          Say (''Ok, I've set the secondary volume to'' @ str_int v @ ''%''),
          Print (str_int_list (v # vs)), SetTtsVolume v]\<rparr>)"
proof -
  have "lower t \<noteq> ''power off''" "lower t \<noteq> ''reboot''"
    using assms(6) by (auto simp: startswith_def)
  with assms show ?thesis
    by (simp add: process_event_def map_of_truthy subscript_Some str_def you_said_def
        effect_defs Let_def)
qed

text \<open>
  Claim C4. On the text \<open>set secondary volume to 150\<close> the TTS volume becomes 150 and
  the confirmation says 150: the number is not brought into the range from 0 to 100,
  which \<open>volume_up\<close> and \<open>volume_down\<close> keep.
\<close>

theorem set_volume_150_unclamped:
  "process_event (speech ''set secondary volume to 150'') (started st tty ip) =
    (Returned,
     \<lparr>can_start_conversation = False, assistant = Some Assistant, ui_status = st,
      tts_volume = 150, stdout_isatty = tty, hostname_output = ip,
      trace = [Print ''You said: set secondary volume to 150'', StopConversation,
               Print ''[150]'', Say ''Ok, I've set the secondary volume to150%'',
               Print ''[150]'', SetTtsVolume 150]\<rparr>)"
proof -
  let ?t = "''set secondary volume to 150''"
  have l: "lower ?t = ?t" by code_simp
  have toks: "int_tokens (split (replace_all ''%'' (lower ?t))) = Inr [150]" by code_simp
  have s1: "str_int 150 = ''150''" by code_simp
  have s2: "str_int_list [150] = ''[150]''" by code_simp
  have c1: "\<not> py_in ''ip address'' (lower ?t)" unfolding l by (simp add: startswith_def)
  have c2: "\<not> py_in ''repeat'' (lower ?t)" unfolding l by (simp add: startswith_def)
  have c3: "py_in ''secondary volume to'' (lower ?t)" unfolding l by (simp add: startswith_def)
  have "process_event (speech ?t) (started st tty ip) =
    (Returned, (started st tty ip)\<lparr>tts_volume := 150,
       trace := trace (started st tty ip) @
         [you_said ?t, StopConversation, Print (str_int_list [150]),
          Say (''Ok, I've set the secondary volume to'' @ str_int 150 @ ''%''),
          Print (str_int_list [150]), SetTtsVolume 150]\<rparr>)"
    by (rule set_volume_first_token [where d = "[(''text'', Str ?t)]" and a = Assistant,
          OF _ _ _ c1 c2 c3 toks])
      (simp_all add: speech_simps started_eq)
  then show ?thesis
    by (simp add: s1 s2 started_eq you_said_def)
qed

text \<open>The text of the design document, where the number is in range.\<close>

lemma set_volume_42:
  "process_event (speech ''set secondary volume to 42%'') (started st tty ip) =
    (Returned,
     \<lparr>can_start_conversation = False, assistant = Some Assistant, ui_status = st,
      tts_volume = 42, stdout_isatty = tty, hostname_output = ip,
      trace = [Print ''You said: set secondary volume to 42%'', StopConversation,
               Print ''[42]'', Say ''Ok, I've set the secondary volume to42%'',
               Print ''[42]'', SetTtsVolume 42]\<rparr>)"
proof -
  let ?t = "''set secondary volume to 42%''"
  have l: "lower ?t = ?t" by code_simp
  have toks: "int_tokens (split (replace_all ''%'' (lower ?t))) = Inr [42]" by code_simp
  have s1: "str_int 42 = ''42''" by code_simp
  have s2: "str_int_list [42] = ''[42]''" by code_simp
  have c1: "\<not> py_in ''ip address'' (lower ?t)" unfolding l by (simp add: startswith_def)
  have c2: "\<not> py_in ''repeat'' (lower ?t)" unfolding l by (simp add: startswith_def)
  have c3: "py_in ''secondary volume to'' (lower ?t)" unfolding l by (simp add: startswith_def)
  have "process_event (speech ?t) (started st tty ip) =
    (Returned, (started st tty ip)\<lparr>tts_volume := 42,
       trace := trace (started st tty ip) @
         [you_said ?t, StopConversation, Print (str_int_list [42]),
          Say (''Ok, I've set the secondary volume to'' @ str_int 42 @ ''%''),
          Print (str_int_list [42]), SetTtsVolume 42]\<rparr>)"
    by (rule set_volume_first_token [where d = "[(''text'', Str ?t)]" and a = Assistant,
          OF _ _ _ c1 c2 c3 toks])
      (simp_all add: speech_simps started_eq)
  then show ?thesis
    by (simp add: s1 s2 started_eq you_said_def)
qed

section \<open>Errors of the assistant engine\<close>

text \<open>
  An ASSISTANT_ERROR event whose arguments hold a true \<open>is_fatal\<close> raises SystemExit
  with code 1: nothing is changed and the loop hands over no further event. With a false
  \<open>is_fatal\<close>, or with no arguments, the dispatcher returns and nothing is changed.
\<close>

lemma assistant_error:
  assumes "type e = ON_ASSISTANT_ERROR"
  shows "(truthy_args (args e) \<and> subscript (args e) ''is_fatal'' = Inr v \<and> truthy v \<longrightarrow>
            process_event e w = (Raised (SystemExit 1), w) \<and>
            for_each_event (e # es) w = (Raised (SystemExit 1), w)) \<and>
         (\<not> truthy_args (args e) \<or>
            (subscript (args e) ''is_fatal'' = Inr v \<and> \<not> truthy v) \<longrightarrow>
            process_event e w = (Returned, w))"
  using assms by (auto simp: process_event_def)

lemma assistant_error_not_fatal:
  "process_event \<lparr>type = ON_ASSISTANT_ERROR, args = Some [(''is_fatal'', Bool False)]\<rparr> w =
     (Returned, w)"
  "process_event \<lparr>type = ON_ASSISTANT_ERROR, args = None\<rparr> w = (Returned, w)"
  "process_event \<lparr>type = ON_ASSISTANT_ERROR, args = Some []\<rparr> w = (Returned, w)"
  by (simp_all add: process_event_def truthy_args_def truthy_def subscript_def)

text \<open>
  Claim C8. A fatal ASSISTANT_ERROR as the first event, whatever follows it: the loop
  ends with SystemExit of code 1 and the state as it was when the loop began, and the
  process, whose main thread has run \<open>main\<close> to its end, exits with status 0, not 1.
\<close>

theorem fatal_error_exit_status:
  "run_task (\<lparr>type = ON_ASSISTANT_ERROR, args = Some [(''is_fatal'', Bool True)]\<rparr> # es)
      (init st tty ip) = (Raised (SystemExit 1), started st tty ip) \<and>
   main (\<lparr>type = ON_ASSISTANT_ERROR, args = Some [(''is_fatal'', Bool True)]\<rparr> # es) st tty ip =
     (0, started st tty ip)"
proof -
  let ?e = "\<lparr>type = ON_ASSISTANT_ERROR, args = Some [(''is_fatal'', Bool True)]\<rparr>"
  have "process_event ?e w = (Raised (SystemExit 1), w)" for w
    by (simp add: process_event_def truthy_args_def truthy_def subscript_def)
  then have "run_task (?e # es) (init st tty ip) = (Raised (SystemExit 1), started st tty ip)"
    by (simp add: run_task_def started_def)
  then show ?thesis
    by (simp add: main_def start_def)
qed

end
